theory Spec2Isabelle
  imports Main
begin

section \<open>Python values used by the chat backend\<close>

text \<open>
  The embedding covers \<^verbatim>\<open>src/backend/inference.py\<close> (the five backend adapters and
  the dispatcher \<^verbatim>\<open>inference\<close>) and the session endpoints of
  \<^verbatim>\<open>src/backend/main.py\<close>.

  The module-level statements of inference.py (reading the API key, constructing a
  module-level embedding model, which the parameter of the same name shadows in every
  function) run at import and belong to no call; they are not modelled.

  Strings are byte strings. Objects of the collaborating libraries (retrievers, indexes,
  clients, embedding models) are opaque: an object is a number naming it, and a reference
  that may be Python's \<^verbatim>\<open>None\<close> is an \<open>option\<close>.
\<close>

type_synonym obj = nat

datatype py_exception =
    ValueError string
  | AttributeError string
  | IndexError string
  | KeyError string
  | TypeError string
  | LibraryError string

text \<open>\<^verbatim>\<open>str(e)\<close>: the message the exception carries.\<close>

fun exception_str :: "py_exception \<Rightarrow> string" where
  "exception_str (ValueError m) = m"
| "exception_str (AttributeError m) = m"
| "exception_str (IndexError m) = m"
| "exception_str (KeyError m) = m"
| "exception_str (TypeError m) = m"
| "exception_str (LibraryError m) = m"

text \<open>
  \<^verbatim>\<open>str.capitalize()\<close> on ASCII text: the first character in upper case, the rest
  in lower case. (The roles the endpoints store are the literals \<^verbatim>\<open>"user"\<close> and
  \<^verbatim>\<open>"assistant"\<close>.)
\<close>

definition is_ascii_lower :: "char \<Rightarrow> bool" where
  "is_ascii_lower c = (let n = (of_char c :: nat) in 97 \<le> n \<and> n \<le> 122)"

definition is_ascii_upper :: "char \<Rightarrow> bool" where
  "is_ascii_upper c = (let n = (of_char c :: nat) in 65 \<le> n \<and> n \<le> 90)"

text \<open>Upper and lower case of an ASCII letter differ in the bit of value 32.\<close>

fun upper_char :: "char \<Rightarrow> char" where
  "upper_char (Char b0 b1 b2 b3 b4 b5 b6 b7) =
     (if is_ascii_lower (Char b0 b1 b2 b3 b4 b5 b6 b7) then Char b0 b1 b2 b3 b4 False b6 b7
      else Char b0 b1 b2 b3 b4 b5 b6 b7)"

fun lower_char :: "char \<Rightarrow> char" where
  "lower_char (Char b0 b1 b2 b3 b4 b5 b6 b7) =
     (if is_ascii_upper (Char b0 b1 b2 b3 b4 b5 b6 b7) then Char b0 b1 b2 b3 b4 True b6 b7
      else Char b0 b1 b2 b3 b4 b5 b6 b7)"

fun capitalize :: "string \<Rightarrow> string" where
  "capitalize [] = []"
| "capitalize (c # cs) = upper_char c # map lower_char cs"

text \<open>\<^verbatim>\<open>sep.join(parts)\<close>.\<close>

fun str_join :: "string \<Rightarrow> string list \<Rightarrow> string" where
  "str_join sep [] = []"
| "str_join sep [x] = x"
| "str_join sep (x # y # ys) = x @ sep @ str_join sep (y # ys)"

text \<open>
  A value interpolated into an f-string that is either a \<^verbatim>\<open>str\<close> or
  \<^verbatim>\<open>None\<close>: \<^verbatim>\<open>None\<close> is rendered as the text \<^verbatim>\<open>None\<close>.
\<close>

fun format_value :: "string option \<Rightarrow> string" where
  "format_value None = ''None''"
| "format_value (Some s) = s"

section \<open>Conversation turns and the rendering of the history\<close>

text \<open>
  A turn is the dict \<^verbatim>\<open>{"role": ..., "content": ...}\<close> that \<^verbatim>\<open>chat_with_bot\<close>
  appends. The content of an assistant turn is whatever \<^verbatim>\<open>inference\<close> returned,
  which is \<^verbatim>\<open>None\<close> on the dispatcher's last branch.
\<close>

record turn =
  role :: string
  content :: "string option"

text \<open>
  The expression every adapter evaluates (inference.py lines 30-32, 60-62, 93-95, 145-147,
  179-181, the same text five times):
  \<^verbatim>\<open>"\n".join([f"{msg['role'].capitalize()}: {msg['content']}" for msg in chat_history])\<close>
\<close>

definition turn_line :: "turn \<Rightarrow> string" where
  "turn_line msg = capitalize (role msg) @ '': '' @ format_value (content msg)"

definition history_context :: "turn list \<Rightarrow> string" where
  "history_context chat_history = str_join ''\<newline>'' (map turn_line chat_history)"

text \<open>
  \<^verbatim>\<open>f"Chat History:\n{history_context}\n\nNew Question:\n{question}"\<close>
  (lines 33, 96, 182).
\<close>

definition question_with_history :: "turn list \<Rightarrow> string \<Rightarrow> string" where
  "question_with_history chat_history question =
     ''Chat History:\<newline>'' @ history_context chat_history @
     ''\<newline>\<newline>New Question:\<newline>'' @ question"

section \<open>The collaborating libraries\<close>

text \<open>
  What \<^verbatim>\<open>embed_query\<close> returns: the code calls \<^verbatim>\<open>.tolist()\<close> on it in two
  adapters, a method an array has and a plain list has not. The components are never
  inspected by this code; they are integers here.
\<close>

datatype embedding = NdArray "int list" | PyList "int list"

fun components :: "embedding \<Rightarrow> int list" where
  "components (NdArray xs) = xs"
| "components (PyList xs) = xs"

text \<open>What \<^verbatim>\<open>docstore.search\<close> returns: a document, or a text saying the id is unknown.\<close>

datatype document = Document string | NotFound string

record prompt_template =
  input_variables :: "string list"
  template :: string

text \<open>
  The runnable pipelines the adapters compose with \<^verbatim>\<open>|\<close> and hand to the library:
  \<^item> \<^verbatim>\<open>retriever | prompt_template | chat_model | StrOutputParser()\<close>
  \<^item> \<^verbatim>\<open>prompt_template | chat_model | StrOutputParser()\<close>
  \<^item> \<^verbatim>\<open>{"context": retriever, "question": RunnablePassthrough()} | prompt | chat_model | StrOutputParser()\<close>
  The chat model is \<^verbatim>\<open>ChatTogether(together_api_key=..., model=chat_model)\<close>, named
  here by its model name. Composing a pipeline and invoking it is one call into the
  library (the event \<open>Invoke\<close>), which raises or returns the answer text.
\<close>

datatype chain =
    RetrieverChain "obj option" prompt_template string
  | PromptChain prompt_template string
  | RagChain obj string string

datatype chain_input = Text string | Vars "(string \<times> string) list"

text \<open>
  Every call into a library, and every \<^verbatim>\<open>print\<close>, is an event; a run of the code
  yields the events in the order they were issued.
\<close>

datatype event =
    NewOpenAIEmbeddings
  | EmbedQuery obj string
  | IndexSearch obj "int list list" nat
  | DocstoreSearch obj int
  | ClientSearch obj string "int list" nat
  | PineconeQuery obj "int list" nat bool
  | AsRetriever obj
  | Invoke chain chain_input
  | Predict string string
  | Print string

text \<open>
  The answers of the libraries, as parameters: each either raises or returns. A search
  result is given by its payload (Qdrant) or metadata (Pinecone) dict.
\<close>

record world =
  new_embeddings :: "py_exception + obj"
  embed_query :: "obj \<Rightarrow> string \<Rightarrow> py_exception + embedding"
  index_search ::
    "obj \<Rightarrow> int list list \<Rightarrow> nat \<Rightarrow> py_exception + (int list list \<times> int list list)"
  docstore_search :: "obj \<Rightarrow> int \<Rightarrow> py_exception + document"
  client_search ::
    "obj \<Rightarrow> string \<Rightarrow> int list \<Rightarrow> nat \<Rightarrow> py_exception + (string \<times> string) list list"
  pinecone_query ::
    "obj \<Rightarrow> int list \<Rightarrow> nat \<Rightarrow> bool \<Rightarrow> py_exception + (string \<times> string) list list"
  as_retriever :: "obj \<Rightarrow> py_exception + obj"
  chain_invoke :: "chain \<Rightarrow> chain_input \<Rightarrow> py_exception + string"
  predict :: "string \<Rightarrow> string \<Rightarrow> py_exception + string"

section \<open>Runs: events so far, then an exception or a value\<close>

type_synonym 'a run = "event list \<times> (py_exception + 'a)"

definition ereturn :: "'a \<Rightarrow> 'a run" where
  "ereturn a = ([], Inr a)"

definition eraise :: "py_exception \<Rightarrow> 'a run" where
  "eraise e = ([], Inl e)"

definition ebind :: "'a run \<Rightarrow> ('a \<Rightarrow> 'b run) \<Rightarrow> 'b run" where
  "ebind m f =
     (case m of
        (t, Inl e) \<Rightarrow> (t, Inl e)
      | (t, Inr a) \<Rightarrow> (case f a of (t', r) \<Rightarrow> (t @ t', r)))"

definition print :: "string \<Rightarrow> unit run" where
  "print s = ([Print s], Inr ())"

definition py_quote :: "string \<Rightarrow> string" where
  "py_quote s = [CHR 0x27] @ s @ [CHR 0x27]"

text \<open>\<^verbatim>\<open>x.name\<close> for the method \<open>name\<close> of a reference that may be \<^verbatim>\<open>None\<close>.\<close>

definition method_of :: "obj option \<Rightarrow> string \<Rightarrow> obj run" where
  "method_of r name =
     (case r of
        None \<Rightarrow> eraise (AttributeError
          (py_quote ''NoneType'' @ '' object has no attribute '' @ py_quote name))
      | Some x \<Rightarrow> ereturn x)"

definition tolist :: "embedding \<Rightarrow> int list run" where
  "tolist v =
     (case v of
        NdArray xs \<Rightarrow> ereturn xs
      | PyList xs \<Rightarrow> eraise (AttributeError
          (py_quote ''list'' @ '' object has no attribute '' @ py_quote ''tolist'')))"

definition page_content :: "document \<Rightarrow> string run" where
  "page_content d =
     (case d of
        Document text \<Rightarrow> ereturn text
      | NotFound _ \<Rightarrow> eraise (AttributeError
          (py_quote ''str'' @ '' object has no attribute '' @ py_quote ''page_content'')))"

text \<open>\<^verbatim>\<open>I[0][0]\<close>.\<close>

definition first_of_first :: "int list list \<Rightarrow> int run" where
  "first_of_first I =
     (case I of
        [] \<Rightarrow> eraise (IndexError ''index 0 is out of bounds'')
      | row # _ \<Rightarrow>
          (case row of
             [] \<Rightarrow> eraise (IndexError ''index 0 is out of bounds'')
           | i # _ \<Rightarrow> ereturn i))"

text \<open>\<^verbatim>\<open>[d[key] for d in results]\<close>: the first dict without the key raises.\<close>

fun collect_field :: "string \<Rightarrow> (string \<times> string) list list \<Rightarrow> string list run" where
  "collect_field key [] = ereturn []"
| "collect_field key (d # ds) =
     (case map_of d key of
        None \<Rightarrow> eraise (KeyError (py_quote key))
      | Some v \<Rightarrow> ebind (collect_field key ds) (\<lambda>vs. ereturn (v # vs)))"

text \<open>The library calls, each logged with its arguments as issued.\<close>

definition OpenAIEmbeddings :: "world \<Rightarrow> obj run" where
  "OpenAIEmbeddings w = ([NewOpenAIEmbeddings], new_embeddings w)"

definition call_embed_query :: "world \<Rightarrow> obj \<Rightarrow> string \<Rightarrow> embedding run" where
  "call_embed_query w em text = ([EmbedQuery em text], embed_query w em text)"

definition call_index_search ::
  "world \<Rightarrow> obj \<Rightarrow> int list list \<Rightarrow> nat \<Rightarrow> (int list list \<times> int list list) run" where
  "call_index_search w ix xs k = ([IndexSearch ix xs k], index_search w ix xs k)"

definition call_docstore_search :: "world \<Rightarrow> obj \<Rightarrow> int \<Rightarrow> document run" where
  "call_docstore_search w ds doc_id = ([DocstoreSearch ds doc_id], docstore_search w ds doc_id)"

definition call_client_search ::
  "world \<Rightarrow> obj \<Rightarrow> string \<Rightarrow> int list \<Rightarrow> nat \<Rightarrow> (string \<times> string) list list run" where
  "call_client_search w c collection_name query_vector limit =
     ([ClientSearch c collection_name query_vector limit],
      client_search w c collection_name query_vector limit)"

definition call_pinecone_query ::
  "world \<Rightarrow> obj \<Rightarrow> int list \<Rightarrow> nat \<Rightarrow> bool \<Rightarrow> (string \<times> string) list list run" where
  "call_pinecone_query w ix vector top_k include_metadata =
     ([PineconeQuery ix vector top_k include_metadata],
      pinecone_query w ix vector top_k include_metadata)"

definition call_as_retriever :: "world \<Rightarrow> obj \<Rightarrow> obj run" where
  "call_as_retriever w vs = ([AsRetriever vs], as_retriever w vs)"

definition invoke :: "world \<Rightarrow> chain \<Rightarrow> chain_input \<Rightarrow> string run" where
  "invoke w c x = ([Invoke c x], chain_invoke w c x)"

definition call_predict :: "world \<Rightarrow> string \<Rightarrow> string \<Rightarrow> string run" where
  "call_predict w model prompt = ([Predict model prompt], predict w model prompt)"

section \<open>The backend adapters (inference.py)\<close>

subsection \<open>Chroma\<close>

definition chroma_prompt_template :: prompt_template where
  "chroma_prompt_template =
     \<lparr>input_variables = [''context'', ''question''],
      template =
        ''You are an expert financial advisor. Use the context and chat history to answer accurately.\<newline>\<newline>'' @
        ''Context: {context}\<newline>\<newline>'' @
        ''{question}\<newline>\<newline>'' @
        ''Answer (be specific and avoid hallucinations):''\<rparr>"

definition inference_chroma ::
  "world \<Rightarrow> string \<Rightarrow> string \<Rightarrow> obj option \<Rightarrow> turn list \<Rightarrow> string run" where
  "inference_chroma w chat_model question retriever chat_history =
     ebind (invoke w (RetrieverChain retriever chroma_prompt_template chat_model)
              (Text (question_with_history chat_history question))) (\<lambda>result.
     ebind (print result) (\<lambda>_.
     ereturn result))"

subsection \<open>FAISS\<close>

definition faiss_prompt_template :: prompt_template where
  "faiss_prompt_template =
     \<lparr>input_variables = [''history'', ''context'', ''question''],
      template =
        ''You are an expert financial advisor. Use the context and chat history to answer questions accurately.\<newline>'' @
        ''Chat History:\<newline>{history}\<newline>\<newline>'' @
        ''Context:\<newline>{context}\<newline>\<newline>'' @
        ''Question:\<newline>{question}\<newline>\<newline>'' @
        ''Answer:''\<rparr>"

definition inference_faiss ::
  "world \<Rightarrow> string \<Rightarrow> string \<Rightarrow> obj option \<Rightarrow> obj option \<Rightarrow> obj option \<Rightarrow> turn list
     \<Rightarrow> string run" where
  "inference_faiss w chat_model question embedding_model_global index docstore chat_history =
     (case embedding_model_global of
        None \<Rightarrow> eraise (ValueError ''Embedding model is not initialized.'')
      | Some em \<Rightarrow>
          ebind (call_embed_query w em question) (\<lambda>query_embedding.
          ebind (method_of index ''search'') (\<lambda>ix.
          ebind (call_index_search w ix [components query_embedding] 1) (\<lambda>(D, I).
          ebind (first_of_first I) (\<lambda>doc_id.
          ebind (method_of docstore ''search'') (\<lambda>ds.
          ebind (call_docstore_search w ds doc_id) (\<lambda>document.
          ebind (page_content document) (\<lambda>context.
          ebind (invoke w (PromptChain faiss_prompt_template chat_model)
                   (Vars [(''history'', history_context chat_history),
                          (''context'', context),
                          (''question'', question)])) (\<lambda>answer.
          ebind (print answer) (\<lambda>_.
          ereturn answer))))))))))"

subsection \<open>Qdrant\<close>

definition qdrant_prompt :: "string \<Rightarrow> string \<Rightarrow> string" where
  "qdrant_prompt context question_text =
     ''\<newline>    You are a helpful assistant. Use the retrieved documents to answer:\<newline>'' @
     ''    \<newline>'' @
     ''    Context:\<newline>'' @
     ''    '' @ context @ ''\<newline>'' @
     ''\<newline>'' @
     ''    '' @ question_text @ ''\<newline>'' @
     ''\<newline>'' @
     ''    Answer:\<newline>'' @
     ''    ''"

definition inference_qdrant ::
  "world \<Rightarrow> string \<Rightarrow> string \<Rightarrow> obj option \<Rightarrow> obj option \<Rightarrow> turn list \<Rightarrow> string run" where
  "inference_qdrant w chat_model question embedding_model_global client chat_history =
     (case embedding_model_global of
        None \<Rightarrow> eraise (ValueError ''Embedding model is not initialized.'')
      | Some em \<Rightarrow>
          ebind (call_embed_query w em (question_with_history chat_history question))
            (\<lambda>query_embedding.
          ebind (method_of client ''search'') (\<lambda>c.
          ebind (tolist query_embedding) (\<lambda>query_vector.
          ebind (call_client_search w c ''text_vectors'' query_vector 2) (\<lambda>search_results.
          ebind (collect_field ''page_content'' search_results) (\<lambda>contexts.
          ebind (call_predict w chat_model
                   (qdrant_prompt (str_join ''\<newline>'' contexts)
                      (question_with_history chat_history question))) (\<lambda>response.
          ebind (print response) (\<lambda>_.
          ereturn response))))))))"

subsection \<open>Pinecone\<close>

definition pinecone_prompt :: "string \<Rightarrow> string \<Rightarrow> string \<Rightarrow> string" where
  "pinecone_prompt formatted_history context question =
     ''\<newline>    You are a helpful assistant. Use the retrieved documents and chat history to answer:\<newline>'' @
     ''    \<newline>'' @
     ''    Chat History:\<newline>'' @
     ''    '' @ formatted_history @ ''\<newline>'' @
     ''\<newline>'' @
     ''    Context:\<newline>'' @
     ''    '' @ context @ ''\<newline>'' @
     ''\<newline>'' @
     ''    Question: '' @ question @ ''\<newline>'' @
     ''    \<newline>'' @
     ''    Answer:\<newline>'' @
     ''    ''"

definition inference_pinecone ::
  "world \<Rightarrow> string \<Rightarrow> string \<Rightarrow> obj option \<Rightarrow> obj option \<Rightarrow> turn list \<Rightarrow> string run" where
  "inference_pinecone w chat_model question embedding_model_global pinecone_index chat_history =
     (case embedding_model_global of
        None \<Rightarrow> eraise (ValueError ''Embedding model is not initialized.'')
      | Some em \<Rightarrow>
          ebind (call_embed_query w em question) (\<lambda>query_embedding.
          ebind (method_of pinecone_index ''query'') (\<lambda>ix.
          ebind (tolist query_embedding) (\<lambda>vector.
          ebind (call_pinecone_query w ix vector 2 True) (\<lambda>matches.
          ebind (collect_field ''text'' matches) (\<lambda>contexts.
          ebind (call_predict w chat_model
                   (pinecone_prompt (history_context chat_history)
                      (str_join ''\<newline>'' contexts) question)) (\<lambda>response.
          ebind (print response) (\<lambda>_.
          ereturn response))))))))"

subsection \<open>Weaviate\<close>

definition weaviate_template :: string where
  "weaviate_template =
     ''\<newline>    You are an expert financial advisor. Use the context and chat history to answer accurately:\<newline>'' @
     ''\<newline>'' @
     ''    Context:\<newline>'' @
     ''    {context}\<newline>'' @
     ''\<newline>'' @
     ''    {question}\<newline>'' @
     ''\<newline>'' @
     ''    Answer:\<newline>'' @
     ''    ''"

definition inference_weaviate ::
  "world \<Rightarrow> string \<Rightarrow> string \<Rightarrow> obj option \<Rightarrow> turn list \<Rightarrow> string run" where
  "inference_weaviate w chat_model question vs chat_history =
     ebind (method_of vs ''as_retriever'') (\<lambda>store.
     ebind (call_as_retriever w store) (\<lambda>retriever.
     ebind (invoke w (RagChain retriever weaviate_template chat_model)
              (Text (question_with_history chat_history question))) (\<lambda>result.
     ebind (print result) (\<lambda>_.
     ereturn result))))"

subsection \<open>The dispatcher\<close>

text \<open>
  \<^verbatim>\<open>inference\<close> returns the adapter's text, or \<^verbatim>\<open>None\<close> (here \<open>None\<close>) when it
  falls off its last branch.
\<close>

definition inference ::
  "world \<Rightarrow> string \<Rightarrow> string \<Rightarrow> string \<Rightarrow> obj option \<Rightarrow> obj option \<Rightarrow> obj option \<Rightarrow> obj option
     \<Rightarrow> obj option \<Rightarrow> obj option \<Rightarrow> turn list \<Rightarrow> string option run" where
  "inference w vectordb_name chat_model question retriever embedding_model_global index docstore
     pinecone_index vs chat_history =
     ebind (case embedding_model_global of
              None \<Rightarrow> ebind (OpenAIEmbeddings w) (\<lambda>em. ereturn (Some em))
            | Some em \<Rightarrow> ereturn (Some em)) (\<lambda>embedding_model_global.
     if vectordb_name = ''Chroma'' then
       ebind (inference_chroma w chat_model question retriever chat_history)
         (\<lambda>r. ereturn (Some r))
     else if vectordb_name = ''FAISS'' then
       ebind (inference_faiss w chat_model question embedding_model_global index docstore
                chat_history)
         (\<lambda>r. ereturn (Some r))
     else if vectordb_name = ''Qdrant'' then
       ebind (inference_qdrant w chat_model question embedding_model_global vs chat_history)
         (\<lambda>r. ereturn (Some r))
     else if vectordb_name = ''Pinecone'' then
       ebind (inference_pinecone w chat_model question embedding_model_global pinecone_index
                chat_history)
         (\<lambda>r. ereturn (Some r))
     else if vectordb_name = ''Weaviate'' then
       ebind (inference_weaviate w chat_model question vs chat_history)
         (\<lambda>r. ereturn (Some r))
     else
       ebind (print ''Invalid Choice'') (\<lambda>_. ereturn None))"

section \<open>The session and its endpoints (main.py)\<close>

record session_state =
  retriever :: "obj option"
  preprocessing_done :: bool
  index :: "obj option"
  docstore :: "obj option"
  embedding_model_global :: "obj option"
  pinecone_index :: "obj option"
  vs :: "obj option"
  selected_vectordb :: "string option"
  selected_chat_model :: "string option"
  messages :: "turn list"

definition initial_session :: session_state where
  "initial_session =
     \<lparr>retriever = None, preprocessing_done = False, index = None, docstore = None,
      embedding_model_global = None, pinecone_index = None, vs = None,
      selected_vectordb = None, selected_chat_model = None, messages = []\<rparr>"

record http_exception =
  status_code :: nat
  detail :: string

text \<open>The UTF-8 bytes of the symbols U+274C, U+1F916 that the messages start with.\<close>

definition cross_mark :: string where
  "cross_mark = [CHR 0xE2, CHR 0x9D, CHR 0x8C]"

definition robot_face :: string where
  "robot_face = [CHR 0xF0, CHR 0x9F, CHR 0xA4, CHR 0x96]"

text \<open>\<^verbatim>\<open>not x\<close> for a value that is \<^verbatim>\<open>None\<close> or a \<^verbatim>\<open>str\<close>.\<close>

fun falsy :: "string option \<Rightarrow> bool" where
  "falsy None = True"
| "falsy (Some s) = (s = [])"

definition select_vectordb :: "string \<Rightarrow> session_state \<Rightarrow> session_state" where
  "select_vectordb vectordb s = s\<lparr>selected_vectordb := Some vectordb\<rparr>"

definition select_chat_model :: "string \<Rightarrow> session_state \<Rightarrow> session_state" where
  "select_chat_model chat_model s = s\<lparr>selected_chat_model := Some chat_model\<rparr>"

text \<open>
  \<^verbatim>\<open>chat_with_bot\<close>: the session after the call, the events of the call, and the
  HTTP error raised or the response returned (the value under \<^verbatim>\<open>"response"\<close>).
  The session is returned on the error paths too: the user's turn is appended (line 124)
  before the \<^verbatim>\<open>try\<close>.
\<close>

definition chat_with_bot ::
  "world \<Rightarrow> string \<Rightarrow> session_state
     \<Rightarrow> session_state \<times> event list \<times> (http_exception + string option)" where
  "chat_with_bot w prompt s =
     (if \<not> preprocessing_done s then
        (s, [], Inl \<lparr>status_code = 400,
           detail = cross_mark @ '' Preprocessing must be completed before inferencing.''\<rparr>)
      else if falsy (selected_vectordb s) \<or> falsy (selected_chat_model s) then
        (s, [], Inl \<lparr>status_code = 400,
           detail = cross_mark @
             '' Please select both a vector database and a chat model before chatting.''\<rparr>)
      else
        let s1 = s\<lparr>messages := messages s @ [\<lparr>role = ''user'', content = Some prompt\<rparr>]\<rparr> in
        (case inference w (the (selected_vectordb s1)) (the (selected_chat_model s1)) prompt
                (retriever s1) (embedding_model_global s1) (index s1) (docstore s1)
                (pinecone_index s1) (vs s1) (messages s1) of
           (t, Inr response) \<Rightarrow>
             (s1\<lparr>messages := messages s1 @ [\<lparr>role = ''assistant'', content = response\<rparr>]\<rparr>,
              t @ [Print (robot_face @ '' Chatbot Response: '' @ format_value response @
                     ''\<newline>'')],
              Inr response)
         | (t, Inl e) \<Rightarrow>
             (s1,
              t @ [Print (cross_mark @ '' Error in inference: '' @ exception_str e @
                     ''\<newline>'')],
              Inl \<lparr>status_code = 500,
                 detail = ''Inference Error: '' @ exception_str e\<rparr>)))"

text \<open>\<^verbatim>\<open>reset_chat\<close>: the session after the call, the line printed, the message returned.\<close>

definition counterclockwise_arrows :: string where
  "counterclockwise_arrows = [CHR 0xF0, CHR 0x9F, CHR 0x94, CHR 0x84]"

definition reset_chat :: "session_state \<Rightarrow> session_state \<times> event list \<times> string" where
  "reset_chat s =
     (s\<lparr>messages := []\<rparr>,
      [Print (counterclockwise_arrows @ '' Chat history reset.\<newline>'')],
      ''Chat history reset.'')"

text \<open>
  The guards of \<^verbatim>\<open>chat_with_bot\<close> (lines 117-121): the sessions in which a chat call
  reaches the inference.
\<close>

definition ready_to_chat :: "session_state \<Rightarrow> bool" where
  "ready_to_chat s =
     (preprocessing_done s \<and> \<not> falsy (selected_vectordb s) \<and> \<not> falsy (selected_chat_model s))"

section \<open>Observations on a run\<close>

text \<open>The texts handed to \<^verbatim>\<open>embed_query\<close>, in order.\<close>

fun embedded_text :: "event \<Rightarrow> string option" where
  "embedded_text (EmbedQuery _ text) = Some text"
| "embedded_text _ = None"

definition embedded_texts :: "event list \<Rightarrow> string list" where
  "embedded_texts t = List.map_filter embedded_text t"

text \<open>The retrieval calls issued to a backend client, with all their arguments.\<close>

fun is_retrieval_call :: "event \<Rightarrow> bool" where
  "is_retrieval_call (IndexSearch _ _ _) = True"
| "is_retrieval_call (ClientSearch _ _ _ _) = True"
| "is_retrieval_call (PineconeQuery _ _ _ _) = True"
| "is_retrieval_call _ = False"

definition retrieval_calls :: "event list \<Rightarrow> event list" where
  "retrieval_calls t = filter is_retrieval_call t"

text \<open>The number of embedding models constructed.\<close>

definition constructions :: "event list \<Rightarrow> nat" where
  "constructions t = length (filter (\<lambda>ev. ev = NewOpenAIEmbeddings) t)"

text \<open>The calls that hand a text to a chain or to the chat model.\<close>

fun is_model_call :: "event \<Rightarrow> bool" where
  "is_model_call (Invoke _ _) = True"
| "is_model_call (Predict _ _) = True"
| "is_model_call _ = False"

definition model_calls :: "event list \<Rightarrow> event list" where
  "model_calls t = filter is_model_call t"

section \<open>The history as the specification words it\<close>

text \<open>
  Sections 4.2 and 8 of the specification: the history is serialized as the lines
  \<^verbatim>\<open><Role>: <content>\<close>, one per turn, in turn order, with a newline between
  consecutive lines. This definition follows those words, not the code.
\<close>

fun spec_history :: "turn list \<Rightarrow> string" where
  "spec_history [] = []"
| "spec_history [t] = capitalize (role t) @ '': '' @ format_value (content t)"
| "spec_history (t # u # ts) =
     capitalize (role t) @ '': '' @ format_value (content t) @ ''\<newline>'' @
     spec_history (u # ts)"

section \<open>Test doubles for the libraries\<close>

text \<open>
  A world in which every library call succeeds: the index answers with id 7 first, the
  docstore knows document 7 only, both search services return two passages, and the chat
  model echoes its prompt.
\<close>

definition stub_world :: world where
  "stub_world =
     \<lparr>new_embeddings = Inr 100,
      embed_query = (\<lambda>em text. Inr (NdArray [1, 2, 3])),
      index_search = (\<lambda>ix xs k. Inr ([take k [0, 5]], [take k [7, 3]])),
      docstore_search = (\<lambda>ds doc_id.
        if doc_id = 7 then Inr (Document ''Compound interest is interest on interest.'')
        else Inr (NotFound ''ID not found.'')),
      client_search = (\<lambda>c name v limit.
        Inr (take limit [[(''page_content'', ''alpha'')], [(''page_content'', ''beta'')],
               [(''page_content'', ''gamma'')]])),
      pinecone_query = (\<lambda>ix v top_k include_metadata.
        Inr (take top_k [[(''text'', ''alpha'')], [(''text'', ''beta'')],
               [(''text'', ''gamma'')]])),
      as_retriever = (\<lambda>store. Inr 200),
      chain_invoke = (\<lambda>c x. Inr ''An answer.''),
      predict = (\<lambda>model prompt. Inr prompt)\<rparr>"

text \<open>
  A session as the endpoints produce it: preprocessing done (line 82), a backend and a chat
  model selected. Its handles and its embedding model are \<^verbatim>\<open>None\<close>, as in the
  initial \<^verbatim>\<open>session_state\<close>: no endpoint assigns them.
\<close>

definition ready_session :: "string \<Rightarrow> session_state" where
  "ready_session vectordb =
     select_chat_model ''chat-model''
       (select_vectordb vectordb (initial_session\<lparr>preprocessing_done := True\<rparr>))"

section \<open>Laws of runs\<close>

lemma ebind_ereturn: "ebind (ereturn a) f = f a"
  by (simp add: ebind_def ereturn_def split: prod.splits)

lemma ebind_eraise: "ebind (eraise e) f = eraise e"
  by (simp add: ebind_def eraise_def)

lemma ebind_assoc: "ebind (ebind m f) g = ebind m (\<lambda>a. ebind (f a) g)"
  by (auto simp: ebind_def split: prod.splits sum.splits)

lemma fst_ebind:
  "fst (ebind m f) = fst m @ (case snd m of Inl e \<Rightarrow> [] | Inr a \<Rightarrow> fst (f a))"
  by (auto simp: ebind_def split: prod.splits sum.splits)

lemma snd_ebind:
  "snd (ebind m f) = (case snd m of Inl e \<Rightarrow> Inl e | Inr a \<Rightarrow> snd (f a))"
  by (auto simp: ebind_def split: prod.splits sum.splits)

lemma fst_collect_field: "fst (collect_field key ds) = []"
  by (induction ds) (auto simp: ereturn_def eraise_def ebind_def split: option.splits sum.splits prod.splits)

lemmas run_simps = fst_ebind snd_ebind ereturn_def eraise_def print_def method_of_def tolist_def
  page_content_def first_of_first_def fst_collect_field
  call_embed_query_def call_index_search_def call_docstore_search_def call_client_search_def
  call_pinecone_query_def call_as_retriever_def invoke_def call_predict_def OpenAIEmbeddings_def

lemmas eval_simps = ebind_def ereturn_def eraise_def print_def method_of_def tolist_def
  page_content_def first_of_first_def
  call_embed_query_def call_index_search_def call_docstore_search_def call_client_search_def
  call_pinecone_query_def call_as_retriever_def invoke_def call_predict_def OpenAIEmbeddings_def
  stub_world_def ready_session_def initial_session_def select_vectordb_def select_chat_model_def

text \<open>
  A first chat call in a session fresh from the endpoints, on the FAISS backend: the
  embedding model is constructed, the question embedded, and \<^verbatim>\<open>index.search\<close> fails
  on the index \<^verbatim>\<open>None\<close>.
\<close>

lemma first_chat:
  "chat_with_bot stub_world ''first'' (ready_session ''FAISS'') =
     ((ready_session ''FAISS'')\<lparr>messages := [\<lparr>role = ''user'', content = Some ''first''\<rparr>]\<rparr>,
      [NewOpenAIEmbeddings, EmbedQuery 100 ''first'',
       Print (cross_mark @ '' Error in inference: '' @ py_quote ''NoneType'' @
         '' object has no attribute '' @ py_quote ''search'' @ ''\<newline>'')],
      Inl \<lparr>status_code = 500, detail = ''Inference Error: '' @ py_quote ''NoneType'' @
         '' object has no attribute '' @ py_quote ''search''\<rparr>)"
  by (simp add: chat_with_bot_def inference_def inference_faiss_def eval_simps)

lemma ready_session_ready: "ready_to_chat (ready_session ''FAISS'')"
  by (simp add: ready_to_chat_def ready_session_def initial_session_def select_vectordb_def
      select_chat_model_def)

section \<open>The embedding-model guard of the adapters\<close>

text \<open>
  Claim C8. Each adapter that needs embeddings (FAISS, Qdrant, Pinecone), called with the
  embedding-model reference \<^verbatim>\<open>None\<close>, raises the \<^verbatim>\<open>ValueError\<close> with the
  message "Embedding model is not initialized." and has issued no call at all before it:
  the run has no event, so no embedding and no search was requested.
\<close>

theorem embedding_guard_fails_fast:
  "inference_faiss w cm q None ix ds h =
     ([], Inl (ValueError ''Embedding model is not initialized.''))
   \<and> inference_qdrant w cm q None c h =
     ([], Inl (ValueError ''Embedding model is not initialized.''))
   \<and> inference_pinecone w cm q None pix h =
     ([], Inl (ValueError ''Embedding model is not initialized.''))"
  by (simp add: inference_faiss_def inference_qdrant_def inference_pinecone_def eraise_def)

section \<open>Resetting the chat\<close>

text \<open>
  Claim C9. \<^verbatim>\<open>reset_chat\<close> empties the turn history and leaves every other field of
  the session as it was; the guards of \<^verbatim>\<open>chat_with_bot\<close> therefore hold after the
  reset exactly when they held before, so a session that is ready to chat stays ready.
\<close>

theorem reset_chat_only_empties_history:
  "messages (fst (reset_chat s)) = []
   \<and> retriever (fst (reset_chat s)) = retriever s
   \<and> preprocessing_done (fst (reset_chat s)) = preprocessing_done s
   \<and> index (fst (reset_chat s)) = index s
   \<and> docstore (fst (reset_chat s)) = docstore s
   \<and> embedding_model_global (fst (reset_chat s)) = embedding_model_global s
   \<and> pinecone_index (fst (reset_chat s)) = pinecone_index s
   \<and> vs (fst (reset_chat s)) = vs s
   \<and> selected_vectordb (fst (reset_chat s)) = selected_vectordb s
   \<and> selected_chat_model (fst (reset_chat s)) = selected_chat_model s
   \<and> ready_to_chat (fst (reset_chat s)) = ready_to_chat s"
  by (simp add: reset_chat_def ready_to_chat_def)

section \<open>The handle shared by the Qdrant and the Weaviate branch\<close>

text \<open>
  Claim C10. The dispatcher hands its one argument \<^verbatim>\<open>vs\<close> to the Qdrant adapter (as
  the client) and to the Weaviate adapter (as the vector store), whether the embedding
  model was passed in or is constructed first; nothing else among the handles reaches the
  Qdrant branch, whose run is the same whatever the retriever, index, docstore and
  Pinecone index are.
\<close>

theorem qdrant_and_weaviate_share_vs:
  "inference w ''Qdrant'' cm q r (Some em) ix ds pix vstore h =
     ebind (inference_qdrant w cm q (Some em) vstore h) (\<lambda>a. ereturn (Some a))
   \<and> inference w ''Weaviate'' cm q r (Some em) ix ds pix vstore h =
     ebind (inference_weaviate w cm q vstore h) (\<lambda>a. ereturn (Some a))
   \<and> inference w ''Qdrant'' cm q r None ix ds pix vstore h =
     ebind (OpenAIEmbeddings w) (\<lambda>em.
       ebind (inference_qdrant w cm q (Some em) vstore h) (\<lambda>a. ereturn (Some a)))
   \<and> inference w ''Weaviate'' cm q r None ix ds pix vstore h =
     ebind (OpenAIEmbeddings w) (\<lambda>em.
       ebind (inference_weaviate w cm q vstore h) (\<lambda>a. ereturn (Some a)))
   \<and> inference w ''Qdrant'' cm q r emo ix ds pix vstore h =
     inference w ''Qdrant'' cm q r' emo ix' ds' pix' vstore h"
  by (cases emo) (simp_all add: inference_def ebind_ereturn ebind_assoc)

section \<open>The retrieval count\<close>

lemma retrieval_calls_faiss:
  "retrieval_calls (fst (inference_faiss w cm q (Some em) ixo dso h)) =
     (case embed_query w em q of
        Inl _ \<Rightarrow> []
      | Inr v \<Rightarrow> (case ixo of None \<Rightarrow> [] | Some ix \<Rightarrow> [IndexSearch ix [components v] 1]))"
  by (simp add: inference_faiss_def retrieval_calls_def run_simps
      split: sum.splits prod.splits option.splits list.splits document.splits)

lemma retrieval_calls_qdrant:
  "retrieval_calls (fst (inference_qdrant w cm q (Some em) co h)) =
     (case embed_query w em (question_with_history h q) of
        Inr (NdArray xs) \<Rightarrow>
          (case co of None \<Rightarrow> [] | Some c \<Rightarrow> [ClientSearch c ''text_vectors'' xs 2])
      | _ \<Rightarrow> [])"
  by (simp add: inference_qdrant_def retrieval_calls_def run_simps
      split: sum.splits prod.splits option.splits list.splits embedding.splits)

lemma retrieval_calls_pinecone:
  "retrieval_calls (fst (inference_pinecone w cm q (Some em) pixo h)) =
     (case embed_query w em q of
        Inr (NdArray xs) \<Rightarrow>
          (case pixo of None \<Rightarrow> [] | Some pix \<Rightarrow> [PineconeQuery pix xs 2 True])
      | _ \<Rightarrow> [])"
  by (simp add: inference_pinecone_def retrieval_calls_def run_simps
      split: sum.splits prod.splits option.splits list.splits embedding.splits)

text \<open>
  Claim C7. The retrieval calls of a run, with the count each carries: the FAISS adapter
  issues at most one, \<^verbatim>\<open>index.search\<close> with \<^verbatim>\<open>k=1\<close>, and issues it whenever the
  question was embedded and there is an index; the Qdrant adapter issues at most one,
  \<^verbatim>\<open>client.search\<close> on the collection "text_vectors" with \<^verbatim>\<open>limit=2\<close>; the Pinecone
  adapter issues at most one, \<^verbatim>\<open>pinecone_index.query\<close> with \<^verbatim>\<open>top_k=2\<close>; the two
  issue theirs whenever the embedding is an array and there is a client. No run holds a
  retrieval call with another count.
\<close>

theorem retrieval_count_passed_unchanged:
  "retrieval_calls (fst (inference_faiss w cm q (Some em) ixo dso h)) =
     (case embed_query w em q of
        Inl _ \<Rightarrow> []
      | Inr v \<Rightarrow> (case ixo of None \<Rightarrow> [] | Some ix \<Rightarrow> [IndexSearch ix [components v] 1]))
   \<and> retrieval_calls (fst (inference_qdrant w cm q (Some em) co h)) =
     (case embed_query w em (question_with_history h q) of
        Inr (NdArray xs) \<Rightarrow>
          (case co of None \<Rightarrow> [] | Some c \<Rightarrow> [ClientSearch c ''text_vectors'' xs 2])
      | _ \<Rightarrow> [])
   \<and> retrieval_calls (fst (inference_pinecone w cm q (Some em) pixo h)) =
     (case embed_query w em q of
        Inr (NdArray xs) \<Rightarrow>
          (case pixo of None \<Rightarrow> [] | Some pix \<Rightarrow> [PineconeQuery pix xs 2 True])
      | _ \<Rightarrow> [])"
  by (simp only: retrieval_calls_faiss retrieval_calls_qdrant retrieval_calls_pinecone simp_thms)

section \<open>An unsupported backend name\<close>

text \<open>
  Claim C1, as the code has it. For a backend name outside Chroma, FAISS, Qdrant, Pinecone
  and Weaviate the dispatcher raises nothing and runs no adapter: it prints
  "Invalid Choice" and returns \<^verbatim>\<open>None\<close>. Called without an embedding model it
  constructs one first, and only a failure of that construction is raised.
\<close>

theorem unsupported_backend_returns_none:
  "vectordb_name \<notin> {''Chroma'', ''FAISS'', ''Qdrant'', ''Pinecone'', ''Weaviate''} \<Longrightarrow>
     inference w vectordb_name cm q r (Some em) ix ds pix vstore h =
       ([Print ''Invalid Choice''], Inr None)
   \<and> inference w vectordb_name cm q r None ix ds pix vstore h =
       ebind (OpenAIEmbeddings w) (\<lambda>em. ([Print ''Invalid Choice''], Inr None))"
  by (auto simp: inference_def print_def ebind_def ereturn_def split: prod.splits sum.splits)

theorem unsupported_backend_returns_none_witness:
  "inference stub_world ''Milvus'' ''chat-model'' ''hi'' None (Some 100) None None None None [] =
       ([Print ''Invalid Choice''], Inr None)
   \<and> inference stub_world ''Milvus'' ''chat-model'' ''hi'' None None None None None None [] =
       ([NewOpenAIEmbeddings, Print ''Invalid Choice''], Inr None)"
  using unsupported_backend_returns_none
    [of "''Milvus''" stub_world "''chat-model''" "''hi''" None 100 None None None None "[]"]
  by (simp add: OpenAIEmbeddings_def stub_world_def ebind_def)

text \<open>
  The claim as stated fails: on the name "Milvus" the dispatcher returns \<^verbatim>\<open>None\<close>,
  not a failure.
\<close>

theorem unsupported_backend_no_failure:
  "snd (inference stub_world ''Milvus'' ''chat-model'' ''hi'' None None None None None None
     [\<lparr>role = ''user'', content = Some ''hi''\<rparr>]) = Inr None"
  by (simp add: inference_def OpenAIEmbeddings_def stub_world_def ebind_def ereturn_def print_def)

section \<open>The text the managed-search adapters embed\<close>

text \<open>
  Claim C2, as the code has it. Called with an embedding model, the Qdrant adapter embeds
  exactly one text, the chat history followed by the question
  (\<^verbatim>\<open>question_with_history\<close>); the Pinecone adapter embeds exactly one text, the
  question alone.
\<close>

theorem managed_search_embedded_text:
  "embedded_texts (fst (inference_qdrant w cm q (Some em) co h)) = [question_with_history h q]
   \<and> embedded_texts (fst (inference_pinecone w cm q (Some em) pixo h)) = [q]"
  by (simp add: inference_qdrant_def inference_pinecone_def embedded_texts_def map_filter_def
      run_simps split: sum.splits prod.splits option.splits list.splits embedding.splits)

text \<open>
  The claim as stated fails for Pinecone: with the history of one user turn "hi" and the
  question "hi", the text embedded is "hi", which is not the history-and-question text.
\<close>

theorem pinecone_embeds_question_alone:
  "embedded_texts (fst (inference_pinecone stub_world ''chat-model'' ''hi'' (Some 100) (Some 3)
      [\<lparr>role = ''user'', content = Some ''hi''\<rparr>])) = [''hi'']
   \<and> question_with_history [\<lparr>role = ''user'', content = Some ''hi''\<rparr>] ''hi'' =
       ''Chat History:\<newline>User: hi\<newline>\<newline>New Question:\<newline>hi''
   \<and> embedded_texts (fst (inference_pinecone stub_world ''chat-model'' ''hi'' (Some 100) (Some 3)
      [\<lparr>role = ''user'', content = Some ''hi''\<rparr>])) \<noteq>
       [question_with_history [\<lparr>role = ''user'', content = Some ''hi''\<rparr>] ''hi'']"
  by (simp add: inference_pinecone_def embedded_texts_def map_filter_def run_simps stub_world_def
      question_with_history_def history_context_def turn_line_def is_ascii_lower_def
      is_ascii_upper_def)

section \<open>Construction of the embedding model\<close>

lemma constructions_append: "constructions (a @ b) = constructions a + constructions b"
  by (simp add: constructions_def)

lemma constructions_chroma: "constructions (fst (inference_chroma w cm q r h)) = 0"
  by (simp add: inference_chroma_def constructions_def run_simps split: sum.splits)

lemma constructions_faiss: "constructions (fst (inference_faiss w cm q emo ixo dso h)) = 0"
  by (simp add: inference_faiss_def constructions_def run_simps
      split: sum.splits prod.splits option.splits list.splits document.splits)

lemma constructions_qdrant: "constructions (fst (inference_qdrant w cm q emo co h)) = 0"
  by (simp add: inference_qdrant_def constructions_def run_simps
      split: sum.splits prod.splits option.splits list.splits embedding.splits)

lemma constructions_pinecone: "constructions (fst (inference_pinecone w cm q emo pixo h)) = 0"
  by (simp add: inference_pinecone_def constructions_def run_simps
      split: sum.splits prod.splits option.splits list.splits embedding.splits)

lemma constructions_weaviate: "constructions (fst (inference_weaviate w cm q vstore h)) = 0"
  by (simp add: inference_weaviate_def constructions_def run_simps
      split: sum.splits prod.splits option.splits)

lemma constructions_inference_Some:
  "constructions (fst (inference w n cm q r (Some em) ix ds pix vstore h)) = 0"
  by (simp add: inference_def ebind_ereturn fst_ebind constructions_append
      constructions_chroma constructions_faiss constructions_qdrant constructions_pinecone
      constructions_weaviate split: sum.splits)
     (simp add: constructions_def print_def ereturn_def)

lemma inference_None:
  "inference w n cm q r None ix ds pix vstore h =
     ebind (OpenAIEmbeddings w) (\<lambda>em. inference w n cm q r (Some em) ix ds pix vstore h)"
  by (simp add: inference_def ebind_ereturn ebind_assoc)

lemma constructions_inference_None:
  "constructions (fst (inference w n cm q r None ix ds pix vstore h)) = 1"
  by (simp add: inference_None fst_ebind constructions_append constructions_inference_Some
        split: sum.splits)
     (simp add: OpenAIEmbeddings_def constructions_def)

lemma chat_keeps_embedding:
  "embedding_model_global (fst (chat_with_bot w p s)) = embedding_model_global s"
  by (simp add: chat_with_bot_def Let_def split: prod.splits sum.splits)

lemma chat_constructs:
  "ready_to_chat s \<Longrightarrow> embedding_model_global s = None \<Longrightarrow>
     constructions (fst (snd (chat_with_bot w p s))) = 1"
  using constructions_inference_None [of w "the (selected_vectordb s)"
      "the (selected_chat_model s)" p "retriever s" "index s" "docstore s" "pinecone_index s"
      "vs s" "messages s @ [\<lparr>role = ''user'', content = Some p\<rparr>]"]
  by (auto simp: chat_with_bot_def ready_to_chat_def Let_def constructions_append
      constructions_def split: prod.splits sum.splits)

text \<open>
  Claim C3, as the code has it. Called without an embedding model, the dispatcher
  constructs one before anything else and then runs as if it had been called with that
  model; called with a model it constructs none. The constructed model is not kept:
  \<^verbatim>\<open>chat_with_bot\<close> leaves the session's \<^verbatim>\<open>embedding_model_global\<close> field as it
  found it, so every chat call that reaches the dispatcher in a session whose field is
  \<^verbatim>\<open>None\<close> constructs a model, once per call.
\<close>

theorem embedding_model_constructed_per_call:
  "inference w n cm q r None ix ds pix vstore h =
     ebind (OpenAIEmbeddings w) (\<lambda>em. inference w n cm q r (Some em) ix ds pix vstore h)
   \<and> constructions (fst (inference w n cm q r (Some em) ix ds pix vstore h)) = 0
   \<and> embedding_model_global (fst (chat_with_bot w p s)) = embedding_model_global s
   \<and> (ready_to_chat s \<and> embedding_model_global s = None \<longrightarrow>
        constructions (fst (snd (chat_with_bot w p s))) = 1)"
proof (intro conjI impI)
  show "inference w n cm q r None ix ds pix vstore h =
     ebind (OpenAIEmbeddings w) (\<lambda>em. inference w n cm q r (Some em) ix ds pix vstore h)"
    by (rule inference_None)
  show "constructions (fst (inference w n cm q r (Some em) ix ds pix vstore h)) = 0"
    by (rule constructions_inference_Some)
  show "embedding_model_global (fst (chat_with_bot w p s)) = embedding_model_global s"
    by (rule chat_keeps_embedding)
  assume "ready_to_chat s \<and> embedding_model_global s = None"
  then show "constructions (fst (snd (chat_with_bot w p s))) = 1"
    by (simp add: chat_constructs)
qed

theorem embedding_model_constructed_per_call_witness:
  "ready_to_chat (ready_session ''FAISS'')
   \<and> embedding_model_global (ready_session ''FAISS'') = None
   \<and> embedding_model_global (fst (chat_with_bot stub_world ''first'' (ready_session ''FAISS'')))
       = None
   \<and> constructions (fst (snd (chat_with_bot stub_world ''first'' (ready_session ''FAISS'')))) = 1"
proof -
  have r: "ready_to_chat (ready_session ''FAISS'')
      \<and> embedding_model_global (ready_session ''FAISS'') = None"
    by (simp add: ready_session_ready)
       (simp add: ready_session_def initial_session_def select_vectordb_def
          select_chat_model_def)
  from embedding_model_constructed_per_call
    [of stub_world "''x''" "''m''" "''q''" None None None None None "[]" 0 "''first''"
      "ready_session ''FAISS''"] r
  show ?thesis by simp
qed

text \<open>
  The claim as stated fails: the second chat call of a session constructs an embedding
  model again, the session's field being \<^verbatim>\<open>None\<close> still after the first.
\<close>

theorem second_chat_constructs_again:
  "embedding_model_global (fst (chat_with_bot stub_world ''first'' (ready_session ''FAISS'')))
     = None
   \<and> constructions (fst (snd (chat_with_bot stub_world ''first'' (ready_session ''FAISS'')))) = 1
   \<and> constructions (fst (snd (chat_with_bot stub_world ''again''
        (fst (chat_with_bot stub_world ''first'' (ready_session ''FAISS'')))))) = 1"
  by (simp add: first_chat)
     (simp add: chat_with_bot_def inference_def inference_faiss_def eval_simps
        constructions_def)

section \<open>A failed chat call\<close>

lemma chat_inference_raises:
  assumes "ready_to_chat s"
    and "snd (inference w (the (selected_vectordb s)) (the (selected_chat_model s)) p
           (retriever s) (embedding_model_global s) (index s) (docstore s) (pinecone_index s)
           (vs s) (messages s @ [\<lparr>role = ''user'', content = Some p\<rparr>])) = Inl e"
  shows "snd (snd (chat_with_bot w p s)) =
           Inl \<lparr>status_code = 500, detail = ''Inference Error: '' @ exception_str e\<rparr>
         \<and> fst (chat_with_bot w p s) =
           s\<lparr>messages := messages s @ [\<lparr>role = ''user'', content = Some p\<rparr>]\<rparr>"
  using assms
  by (auto simp: chat_with_bot_def ready_to_chat_def Let_def split: prod.splits sum.splits)

lemma chat_error_cases:
  assumes "snd (snd (chat_with_bot w p s)) = Inl err"
  shows "(status_code err = 400 \<and> fst (chat_with_bot w p s) = s)
       \<or> (status_code err = 500
          \<and> (\<exists>e. detail err = ''Inference Error: '' @ exception_str e)
          \<and> fst (chat_with_bot w p s) =
              s\<lparr>messages := messages s @ [\<lparr>role = ''user'', content = Some p\<rparr>]\<rparr>)"
  using assms
  by (auto simp: chat_with_bot_def Let_def split: prod.splits sum.splits if_splits)

text \<open>
  Claim C4, as the code has it. Every exception the inference raises during a chat call
  reaches the caller as the HTTP error 500 whose detail is "Inference Error: " followed by
  the exception's text. An error of a chat call is either a 400 of the guards, and then the
  session is unchanged, or that 500, and then every field of the session is unchanged but
  the turn history, which has gained exactly the user's turn (it is appended before the
  inference runs and is not taken back).
\<close>

theorem chat_failure_reported_user_turn_kept:
  "(ready_to_chat s \<and>
    snd (inference w (the (selected_vectordb s)) (the (selected_chat_model s)) p
           (retriever s) (embedding_model_global s) (index s) (docstore s) (pinecone_index s)
           (vs s) (messages s @ [\<lparr>role = ''user'', content = Some p\<rparr>])) = Inl e
    \<longrightarrow> snd (snd (chat_with_bot w p s)) =
           Inl \<lparr>status_code = 500, detail = ''Inference Error: '' @ exception_str e\<rparr>
         \<and> fst (chat_with_bot w p s) =
           s\<lparr>messages := messages s @ [\<lparr>role = ''user'', content = Some p\<rparr>]\<rparr>)
   \<and> (snd (snd (chat_with_bot w p s)) = Inl err
    \<longrightarrow> (status_code err = 400 \<and> fst (chat_with_bot w p s) = s)
       \<or> (status_code err = 500
          \<and> (\<exists>e. detail err = ''Inference Error: '' @ exception_str e)
          \<and> fst (chat_with_bot w p s) =
              s\<lparr>messages := messages s @ [\<lparr>role = ''user'', content = Some p\<rparr>]\<rparr>))"
proof (intro conjI impI)
  assume a: "ready_to_chat s \<and>
    snd (inference w (the (selected_vectordb s)) (the (selected_chat_model s)) p
           (retriever s) (embedding_model_global s) (index s) (docstore s) (pinecone_index s)
           (vs s) (messages s @ [\<lparr>role = ''user'', content = Some p\<rparr>])) = Inl e"
  from chat_inference_raises [of s w p e] a
  show "snd (snd (chat_with_bot w p s)) =
           Inl \<lparr>status_code = 500, detail = ''Inference Error: '' @ exception_str e\<rparr>"
    and "fst (chat_with_bot w p s) =
           s\<lparr>messages := messages s @ [\<lparr>role = ''user'', content = Some p\<rparr>]\<rparr>"
    by simp_all
next
  assume "snd (snd (chat_with_bot w p s)) = Inl err"
  then show "(status_code err = 400 \<and> fst (chat_with_bot w p s) = s)
       \<or> (status_code err = 500
          \<and> (\<exists>e. detail err = ''Inference Error: '' @ exception_str e)
          \<and> fst (chat_with_bot w p s) =
              s\<lparr>messages := messages s @ [\<lparr>role = ''user'', content = Some p\<rparr>]\<rparr>)"
    by (rule chat_error_cases)
qed

theorem chat_failure_reported_user_turn_kept_witness:
  "snd (snd (chat_with_bot stub_world ''hello'' (ready_session ''Pinecone''))) =
     Inl \<lparr>status_code = 500, detail = ''Inference Error: '' @ py_quote ''NoneType'' @
         '' object has no attribute '' @ py_quote ''query''\<rparr>
   \<and> fst (chat_with_bot stub_world ''hello'' (ready_session ''Pinecone'')) =
       (ready_session ''Pinecone'')\<lparr>messages := [\<lparr>role = ''user'', content = Some ''hello''\<rparr>]\<rparr>"
proof -
  have r: "ready_to_chat (ready_session ''Pinecone'')"
    by (simp add: ready_to_chat_def ready_session_def initial_session_def select_vectordb_def
        select_chat_model_def)
  have i: "snd (inference stub_world (the (selected_vectordb (ready_session ''Pinecone'')))
        (the (selected_chat_model (ready_session ''Pinecone''))) ''hello''
        (retriever (ready_session ''Pinecone''))
        (embedding_model_global (ready_session ''Pinecone''))
        (index (ready_session ''Pinecone'')) (docstore (ready_session ''Pinecone''))
        (pinecone_index (ready_session ''Pinecone'')) (vs (ready_session ''Pinecone''))
        (messages (ready_session ''Pinecone'') @
           [\<lparr>role = ''user'', content = Some ''hello''\<rparr>])) =
      Inl (AttributeError
        (py_quote ''NoneType'' @ '' object has no attribute '' @ py_quote ''query''))"
    by (simp add: inference_def inference_pinecone_def eval_simps)
  have m: "messages (ready_session ''Pinecone'') = []"
    by (simp add: ready_session_def initial_session_def select_vectordb_def
        select_chat_model_def)
  from chat_failure_reported_user_turn_kept [of "ready_session ''Pinecone''" stub_world
      "''hello''" "AttributeError
        (py_quote ''NoneType'' @ '' object has no attribute '' @ py_quote ''query'')"] r i m
  show ?thesis by simp
qed

text \<open>
  The claim as stated fails: a chat call whose inference raises leaves the user's turn in
  the history, which was empty before.
\<close>

theorem failed_chat_changes_history:
  "snd (snd (chat_with_bot stub_world ''first'' (ready_session ''FAISS''))) =
     Inl \<lparr>status_code = 500, detail = ''Inference Error: '' @ py_quote ''NoneType'' @
         '' object has no attribute '' @ py_quote ''search''\<rparr>
   \<and> messages (ready_session ''FAISS'') = []
   \<and> messages (fst (chat_with_bot stub_world ''first'' (ready_session ''FAISS''))) =
       [\<lparr>role = ''user'', content = Some ''first''\<rparr>]"
  by (simp add: first_chat)
     (simp add: ready_session_def initial_session_def select_vectordb_def
        select_chat_model_def)

section \<open>The context of the FAISS adapter\<close>

text \<open>
  Claim C5. When the question is embedded, the index answers the search with a first id
  and the docstore has a document under that id, the FAISS adapter has done exactly this:
  embedded the question itself, searched the index with \<^verbatim>\<open>k=1\<close>, looked up the
  first id of the first row in the docstore, and handed the chain that document's text,
  unchanged, as the context (with the rendered history and the question). It returns what
  the chain returns, printing an answer.
\<close>

theorem faiss_context_is_document_text:
  assumes "embed_query w em q = Inr v"
    and "index_search w ix [components v] 1 = Inr (D, (doc_id # ids) # rows)"
    and "docstore_search w ds doc_id = Inr (Document text)"
  shows "inference_faiss w cm q (Some em) (Some ix) (Some ds) h =
     ([EmbedQuery em q, IndexSearch ix [components v] 1, DocstoreSearch ds doc_id,
       Invoke (PromptChain faiss_prompt_template cm)
         (Vars [(''history'', history_context h), (''context'', text), (''question'', q)])]
      @ (case chain_invoke w (PromptChain faiss_prompt_template cm)
           (Vars [(''history'', history_context h), (''context'', text), (''question'', q)]) of
           Inl e \<Rightarrow> [] | Inr answer \<Rightarrow> [Print answer]),
      chain_invoke w (PromptChain faiss_prompt_template cm)
         (Vars [(''history'', history_context h), (''context'', text), (''question'', q)]))"
  using assms
  by (simp add: inference_faiss_def ebind_def ereturn_def print_def method_of_def
      page_content_def first_of_first_def call_embed_query_def call_index_search_def
      call_docstore_search_def invoke_def split: sum.splits)

theorem faiss_context_is_document_text_witness:
  "inference_faiss stub_world ''chat-model'' ''What is compound interest?''
     (Some 100) (Some 1) (Some 2) [] =
     ([EmbedQuery 100 ''What is compound interest?'', IndexSearch 1 [[1, 2, 3]] 1,
       DocstoreSearch 2 7,
       Invoke (PromptChain faiss_prompt_template ''chat-model'')
         (Vars [(''history'', []),
                (''context'', ''Compound interest is interest on interest.''),
                (''question'', ''What is compound interest?'')]),
       Print ''An answer.''],
      Inr ''An answer.'')"
proof -
  have e: "embed_query stub_world 100 ''What is compound interest?'' = Inr (NdArray [1, 2, 3])"
    by (simp add: stub_world_def)
  have i: "index_search stub_world 1 [components (NdArray [1, 2, 3])] 1 =
      Inr ([[0]], (7 # []) # [])"
    by (simp add: stub_world_def)
  have d: "docstore_search stub_world 2 7 =
      Inr (Document ''Compound interest is interest on interest.'')"
    by (simp add: stub_world_def)
  show ?thesis
    using faiss_context_is_document_text [OF e i d, of "''chat-model''" "[]"]
    by (simp add: stub_world_def history_context_def)
qed

section \<open>The rendering of the history\<close>

lemma history_context_spec: "history_context h = spec_history h"
  by (induction h rule: spec_history.induct) (simp_all add: history_context_def turn_line_def)

lemma question_with_history_spec:
  "question_with_history h q =
     ''Chat History:\<newline>'' @ spec_history h @ ''\<newline>\<newline>New Question:\<newline>'' @ q"
  by (simp add: question_with_history_def history_context_spec)

lemma model_calls_chroma:
  "model_calls (fst (inference_chroma w cm q r h)) =
     [Invoke (RetrieverChain r chroma_prompt_template cm) (Text (question_with_history h q))]"
  by (simp add: inference_chroma_def model_calls_def run_simps split: sum.splits)

lemma model_calls_faiss:
  "model_calls (fst (inference_faiss w cm q emo ixo dso h)) = [] \<or>
   (\<exists>ctx. model_calls (fst (inference_faiss w cm q emo ixo dso h)) =
     [Invoke (PromptChain faiss_prompt_template cm)
        (Vars [(''history'', history_context h), (''context'', ctx), (''question'', q)])])"
  by (simp add: inference_faiss_def model_calls_def run_simps
      split: sum.splits prod.splits option.splits list.splits document.splits)

lemma model_calls_qdrant:
  "model_calls (fst (inference_qdrant w cm q emo co h)) = [] \<or>
   (\<exists>ctx. model_calls (fst (inference_qdrant w cm q emo co h)) =
     [Predict cm (qdrant_prompt ctx (question_with_history h q))])"
  by (simp add: inference_qdrant_def model_calls_def run_simps
      split: sum.splits prod.splits option.splits list.splits embedding.splits)
     blast

lemma model_calls_pinecone:
  "model_calls (fst (inference_pinecone w cm q emo pixo h)) = [] \<or>
   (\<exists>ctx. model_calls (fst (inference_pinecone w cm q emo pixo h)) =
     [Predict cm (pinecone_prompt (history_context h) ctx q)])"
  by (simp add: inference_pinecone_def model_calls_def run_simps
      split: sum.splits prod.splits option.splits list.splits embedding.splits)
     blast

lemma model_calls_weaviate:
  "model_calls (fst (inference_weaviate w cm q vstore h)) = [] \<or>
   (\<exists>r. model_calls (fst (inference_weaviate w cm q vstore h)) =
     [Invoke (RagChain r weaviate_template cm) (Text (question_with_history h q))])"
  by (simp add: inference_weaviate_def model_calls_def run_simps
      split: sum.splits prod.splits option.splits)


lemma model_calls_faiss_success:
  assumes "embed_query w em q = Inr v"
    and "index_search w ix [components v] 1 = Inr (D, (doc_id # ids) # rows)"
    and "docstore_search w ds doc_id = Inr (Document text)"
  shows "model_calls (fst (inference_faiss w cm q (Some em) (Some ix) (Some ds) h)) =
     [Invoke (PromptChain faiss_prompt_template cm)
        (Vars [(''history'', history_context h), (''context'', text), (''question'', q)])]"
  using assms
  by (simp add: inference_faiss_def model_calls_def run_simps split: sum.splits)

lemma model_calls_qdrant_success:
  assumes "embed_query w em (question_with_history h q) = Inr (NdArray xs)"
    and "client_search w c ''text_vectors'' xs 2 = Inr results"
    and "snd (collect_field ''page_content'' results) = Inr contexts"
  shows "model_calls (fst (inference_qdrant w cm q (Some em) (Some c) h)) =
     [Predict cm (qdrant_prompt (str_join ''\<newline>'' contexts) (question_with_history h q))]"
  using assms
  by (simp add: inference_qdrant_def model_calls_def run_simps split: sum.splits)

lemma model_calls_pinecone_success:
  assumes "embed_query w em q = Inr (NdArray xs)"
    and "pinecone_query w pix xs 2 True = Inr matches"
    and "snd (collect_field ''text'' matches) = Inr contexts"
  shows "model_calls (fst (inference_pinecone w cm q (Some em) (Some pix) h)) =
     [Predict cm (pinecone_prompt (history_context h) (str_join ''\<newline>'' contexts) q)]"
  using assms
  by (simp add: inference_pinecone_def model_calls_def run_simps split: sum.splits)

lemma model_calls_weaviate_success:
  assumes "as_retriever w st = Inr rt"
  shows "model_calls (fst (inference_weaviate w cm q (Some st) h)) =
     [Invoke (RagChain rt weaviate_template cm) (Text (question_with_history h q))]"
  using assms
  by (simp add: inference_weaviate_def model_calls_def run_simps split: sum.splits)

text \<open>
  Claim C6. The text the code renders from a list of turns is the one the specification
  words: the lines \<^verbatim>\<open><Role>: <content>\<close> of the turns, in their order, joined by
  newlines, the role capitalized; a function of the turns alone. The turns user "hi",
  assistant "hello" render to the two lines "User: hi" and "Assistant: hello". Every
  adapter hands this text on. The Chroma adapter always invokes its chain on the
  history-and-question text built from it. Each of the FAISS, Qdrant, Pinecone and
  Weaviate adapters, once the library calls before its model call have succeeded, issues
  exactly one model call, and that call carries the history so rendered (as the
  template's history, or inside the history-and-question text); on every other run it
  issues no model call or that one, never a call with another rendering.
\<close>

theorem history_rendered_in_turn_order:
  "history_context h = spec_history h
   \<and> history_context [\<lparr>role = ''user'', content = Some ''hi''\<rparr>,
        \<lparr>role = ''assistant'', content = Some ''hello''\<rparr>] = ''User: hi\<newline>Assistant: hello''
   \<and> model_calls (fst (inference_chroma w cm q r h)) =
       [Invoke (RetrieverChain r chroma_prompt_template cm)
          (Text (''Chat History:\<newline>'' @ spec_history h @
                 ''\<newline>\<newline>New Question:\<newline>'' @ q))]
   \<and> (embed_query w em q = Inr v
      \<and> index_search w ix [components v] 1 = Inr (D, (doc_id # ids) # rows)
      \<and> docstore_search w ds doc_id = Inr (Document doc_text)
      \<longrightarrow> model_calls (fst (inference_faiss w cm q (Some em) (Some ix) (Some ds) h)) =
         [Invoke (PromptChain faiss_prompt_template cm)
            (Vars [(''history'', spec_history h), (''context'', doc_text), (''question'', q)])])
   \<and> (embed_query w em (question_with_history h q) = Inr (NdArray xs)
      \<and> client_search w c ''text_vectors'' xs 2 = Inr results
      \<and> snd (collect_field ''page_content'' results) = Inr contexts
      \<longrightarrow> model_calls (fst (inference_qdrant w cm q (Some em) (Some c) h)) =
         [Predict cm (qdrant_prompt (str_join ''\<newline>'' contexts)
            (''Chat History:\<newline>'' @ spec_history h @
             ''\<newline>\<newline>New Question:\<newline>'' @ q))])
   \<and> (embed_query w em q = Inr (NdArray ys)
      \<and> pinecone_query w pix ys 2 True = Inr matches
      \<and> snd (collect_field ''text'' matches) = Inr texts
      \<longrightarrow> model_calls (fst (inference_pinecone w cm q (Some em) (Some pix) h)) =
         [Predict cm (pinecone_prompt (spec_history h) (str_join ''\<newline>'' texts) q)])
   \<and> (as_retriever w st = Inr rt
      \<longrightarrow> model_calls (fst (inference_weaviate w cm q (Some st) h)) =
         [Invoke (RagChain rt weaviate_template cm)
            (Text (''Chat History:\<newline>'' @ spec_history h @
                   ''\<newline>\<newline>New Question:\<newline>'' @ q))])
   \<and> (model_calls (fst (inference_faiss w cm q emo ixo dso h)) = [] \<or>
      (\<exists>ctx. model_calls (fst (inference_faiss w cm q emo ixo dso h)) =
         [Invoke (PromptChain faiss_prompt_template cm)
            (Vars [(''history'', spec_history h), (''context'', ctx), (''question'', q)])]))
   \<and> (model_calls (fst (inference_qdrant w cm q emo co h)) = [] \<or>
      (\<exists>ctx. model_calls (fst (inference_qdrant w cm q emo co h)) =
         [Predict cm (qdrant_prompt ctx
            (''Chat History:\<newline>'' @ spec_history h @
             ''\<newline>\<newline>New Question:\<newline>'' @ q))]))
   \<and> (model_calls (fst (inference_pinecone w cm q emo pixo h)) = [] \<or>
      (\<exists>ctx. model_calls (fst (inference_pinecone w cm q emo pixo h)) =
         [Predict cm (pinecone_prompt (spec_history h) ctx q)]))
   \<and> (model_calls (fst (inference_weaviate w cm q vstore h)) = [] \<or>
      (\<exists>rt. model_calls (fst (inference_weaviate w cm q vstore h)) =
         [Invoke (RagChain rt weaviate_template cm)
            (Text (''Chat History:\<newline>'' @ spec_history h @
                   ''\<newline>\<newline>New Question:\<newline>'' @ q))]))"
proof (intro conjI impI)
  show "history_context h = spec_history h"
    by (rule history_context_spec)
  show "history_context [\<lparr>role = ''user'', content = Some ''hi''\<rparr>,
        \<lparr>role = ''assistant'', content = Some ''hello''\<rparr>] = ''User: hi\<newline>Assistant: hello''"
    by (simp add: history_context_def turn_line_def is_ascii_lower_def is_ascii_upper_def)
  show "model_calls (fst (inference_chroma w cm q r h)) =
       [Invoke (RetrieverChain r chroma_prompt_template cm)
          (Text (''Chat History:\<newline>'' @ spec_history h @
                 ''\<newline>\<newline>New Question:\<newline>'' @ q))]"
    by (simp only: model_calls_chroma question_with_history_spec)
next
  assume "embed_query w em q = Inr v
      \<and> index_search w ix [components v] 1 = Inr (D, (doc_id # ids) # rows)
      \<and> docstore_search w ds doc_id = Inr (Document doc_text)"
  then have "model_calls (fst (inference_faiss w cm q (Some em) (Some ix) (Some ds) h)) =
     [Invoke (PromptChain faiss_prompt_template cm)
        (Vars [(''history'', history_context h), (''context'', doc_text), (''question'', q)])]"
    by (simp add: model_calls_faiss_success)
  then show "model_calls (fst (inference_faiss w cm q (Some em) (Some ix) (Some ds) h)) =
         [Invoke (PromptChain faiss_prompt_template cm)
            (Vars [(''history'', spec_history h), (''context'', doc_text), (''question'', q)])]"
    by (simp only: history_context_spec)
next
  assume "embed_query w em (question_with_history h q) = Inr (NdArray xs)
      \<and> client_search w c ''text_vectors'' xs 2 = Inr results
      \<and> snd (collect_field ''page_content'' results) = Inr contexts"
  then have "model_calls (fst (inference_qdrant w cm q (Some em) (Some c) h)) =
     [Predict cm (qdrant_prompt (str_join ''\<newline>'' contexts) (question_with_history h q))]"
    by (simp add: model_calls_qdrant_success)
  then show "model_calls (fst (inference_qdrant w cm q (Some em) (Some c) h)) =
         [Predict cm (qdrant_prompt (str_join ''\<newline>'' contexts)
            (''Chat History:\<newline>'' @ spec_history h @
             ''\<newline>\<newline>New Question:\<newline>'' @ q))]"
    by (simp only: question_with_history_spec)
next
  assume "embed_query w em q = Inr (NdArray ys)
      \<and> pinecone_query w pix ys 2 True = Inr matches
      \<and> snd (collect_field ''text'' matches) = Inr texts"
  then have "model_calls (fst (inference_pinecone w cm q (Some em) (Some pix) h)) =
     [Predict cm (pinecone_prompt (history_context h) (str_join ''\<newline>'' texts) q)]"
    by (simp add: model_calls_pinecone_success)
  then show "model_calls (fst (inference_pinecone w cm q (Some em) (Some pix) h)) =
         [Predict cm (pinecone_prompt (spec_history h) (str_join ''\<newline>'' texts) q)]"
    by (simp only: history_context_spec)
next
  assume "as_retriever w st = Inr rt"
  then have "model_calls (fst (inference_weaviate w cm q (Some st) h)) =
     [Invoke (RagChain rt weaviate_template cm) (Text (question_with_history h q))]"
    by (rule model_calls_weaviate_success)
  then show "model_calls (fst (inference_weaviate w cm q (Some st) h)) =
         [Invoke (RagChain rt weaviate_template cm)
            (Text (''Chat History:\<newline>'' @ spec_history h @
                   ''\<newline>\<newline>New Question:\<newline>'' @ q))]"
    by (simp only: question_with_history_spec)
next
  show "model_calls (fst (inference_faiss w cm q emo ixo dso h)) = [] \<or>
      (\<exists>ctx. model_calls (fst (inference_faiss w cm q emo ixo dso h)) =
         [Invoke (PromptChain faiss_prompt_template cm)
            (Vars [(''history'', spec_history h), (''context'', ctx), (''question'', q)])])"
    using model_calls_faiss [of w cm q emo ixo dso h] by (simp only: history_context_spec)
  show "model_calls (fst (inference_qdrant w cm q emo co h)) = [] \<or>
      (\<exists>ctx. model_calls (fst (inference_qdrant w cm q emo co h)) =
         [Predict cm (qdrant_prompt ctx
            (''Chat History:\<newline>'' @ spec_history h @
             ''\<newline>\<newline>New Question:\<newline>'' @ q))])"
    using model_calls_qdrant [of w cm q emo co h] by (simp only: question_with_history_spec)
  show "model_calls (fst (inference_pinecone w cm q emo pixo h)) = [] \<or>
      (\<exists>ctx. model_calls (fst (inference_pinecone w cm q emo pixo h)) =
         [Predict cm (pinecone_prompt (spec_history h) ctx q)])"
    using model_calls_pinecone [of w cm q emo pixo h] by (simp only: history_context_spec)
  show "model_calls (fst (inference_weaviate w cm q vstore h)) = [] \<or>
      (\<exists>rt. model_calls (fst (inference_weaviate w cm q vstore h)) =
         [Invoke (RagChain rt weaviate_template cm)
            (Text (''Chat History:\<newline>'' @ spec_history h @
                   ''\<newline>\<newline>New Question:\<newline>'' @ q))])"
    using model_calls_weaviate [of w cm q vstore h] by (simp only: question_with_history_spec)
qed

text \<open>
  The four adapters on the history of one user turn "hi" and the question "hi", in the
  world where every library call succeeds: each issues its one model call, carrying the
  line "User: hi".
\<close>

theorem history_rendered_in_turn_order_witness:
  "model_calls (fst (inference_faiss stub_world ''chat-model'' ''hi'' (Some 100) (Some 1) (Some 2)
       [\<lparr>role = ''user'', content = Some ''hi''\<rparr>])) =
     [Invoke (PromptChain faiss_prompt_template ''chat-model'')
        (Vars [(''history'', ''User: hi''),
               (''context'', ''Compound interest is interest on interest.''),
               (''question'', ''hi'')])]
   \<and> model_calls (fst (inference_qdrant stub_world ''chat-model'' ''hi'' (Some 100) (Some 3)
       [\<lparr>role = ''user'', content = Some ''hi''\<rparr>])) =
     [Predict ''chat-model'' (qdrant_prompt ''alpha\<newline>beta''
        ''Chat History:\<newline>User: hi\<newline>\<newline>New Question:\<newline>hi'')]
   \<and> model_calls (fst (inference_pinecone stub_world ''chat-model'' ''hi'' (Some 100) (Some 4)
       [\<lparr>role = ''user'', content = Some ''hi''\<rparr>])) =
     [Predict ''chat-model'' (pinecone_prompt ''User: hi'' ''alpha\<newline>beta'' ''hi'')]
   \<and> model_calls (fst (inference_weaviate stub_world ''chat-model'' ''hi'' (Some 5)
       [\<lparr>role = ''user'', content = Some ''hi''\<rparr>])) =
     [Invoke (RagChain 200 weaviate_template ''chat-model'')
        (Text ''Chat History:\<newline>User: hi\<newline>\<newline>New Question:\<newline>hi'')]"
proof -
  let ?h = "[\<lparr>role = ''user'', content = Some ''hi''\<rparr>]"
  let ?qs = "[[(''page_content'', ''alpha'')], [(''page_content'', ''beta'')]]"
  let ?ps = "[[(''text'', ''alpha'')], [(''text'', ''beta'')]]"
  have f: "embed_query stub_world 100 ''hi'' = Inr (NdArray [1, 2, 3])
      \<and> index_search stub_world 1 [components (NdArray [1, 2, 3])] 1 = Inr ([[0]], (7 # []) # [])
      \<and> docstore_search stub_world 2 7 =
          Inr (Document ''Compound interest is interest on interest.'')"
    by (simp add: stub_world_def)
  have q: "embed_query stub_world 100 (question_with_history ?h ''hi'') = Inr (NdArray [1, 2, 3])
      \<and> client_search stub_world 3 ''text_vectors'' [1, 2, 3] 2 = Inr ?qs
      \<and> snd (collect_field ''page_content'' ?qs) = Inr [''alpha'', ''beta'']"
    by (simp add: stub_world_def ebind_def ereturn_def)
  have p: "embed_query stub_world 100 ''hi'' = Inr (NdArray [1, 2, 3])
      \<and> pinecone_query stub_world 4 [1, 2, 3] 2 True = Inr ?ps
      \<and> snd (collect_field ''text'' ?ps) = Inr [''alpha'', ''beta'']"
    by (simp add: stub_world_def ebind_def ereturn_def)
  have r: "as_retriever stub_world 5 = Inr 200"
    by (simp add: stub_world_def)
  have s: "spec_history ?h = ''User: hi''"
    by (simp add: is_ascii_lower_def is_ascii_upper_def)
  from history_rendered_in_turn_order
    [where h = "?h" and w = stub_world and q = "''hi''" and cm = "''chat-model''"
       and em = 100 and v = "NdArray [1, 2, 3]" and ix = 1 and D = "[[0]]" and doc_id = 7
       and ids = "[]" and rows = "[]" and ds = 2
       and doc_text = "''Compound interest is interest on interest.''"
       and xs = "[1, 2, 3]" and c = 3 and results = "?qs" and contexts = "[''alpha'', ''beta'']"
       and ys = "[1, 2, 3]" and pix = 4 and matches = "?ps" and texts = "[''alpha'', ''beta'']"
       and st = 5 and rt = 200] f q p r s
  show ?thesis by simp
qed

end
